theory Spec2Isabelle
  imports Complex_Main "HOL-Library.Sublist"
begin

section \<open>Staggered fracture drivers: data model\<close>

text \<open>
  The drivers of \<^verbatim>\<open>SIMFractureDynamics.h\<close> and \<^verbatim>\<open>SIMFractureQstatic.h\<close> are class
  templates over two solvers, \<^verbatim>\<open>S1\<close> (solid mechanics, Field A) and \<^verbatim>\<open>S2\<close> (phase
  field, Field B), and over a coupling base class.  The solvers and the base class
  belong to the IFEM library; here they are parameters: an abstract state \<open>'w\<close> of the
  two solvers and one function per member the drivers call.  A member that only reads is
  a function of \<open>'w\<close>; a member that may change the solvers returns its result with the
  new \<open>'w\<close>.  Every call of the second kind is recorded in a call log, so that the order
  and the number of calls can be stated.

  C++ \<^verbatim>\<open>double\<close> is modelled by \<^typ>\<open>real\<close> (no rounding, no NaN), \<^verbatim>\<open>int\<close> by
  \<^typ>\<open>int\<close> and \<^verbatim>\<open>size_t\<close> by \<^typ>\<open>nat\<close>.  The only integer arithmetic of the modelled
  code is \<^verbatim>\<open>tp.iter++\<close> below an \<^verbatim>\<open>int\<close> bound, which cannot overflow; the
  conversion of the element count returned by \<^verbatim>\<open>adaptMesh\<close> to \<^verbatim>\<open>int\<close> is taken within
  range.  The members
  \<^verbatim>\<open>initialRefine\<close>, \<^verbatim>\<open>calcResidual\<close>, \<^verbatim>\<open>SIMFracture::solveStep\<close> and the parsers are
  not part of the model.
\<close>

type_synonym Vector = "real list"
type_synonym Vectors = "Vector list"
type_synonym IntVec = "nat list"

text \<open>
  Modelled from the spec: the enumeration \<^verbatim>\<open>SIM::ConvStatus\<close> is declared in the IFEM
  library.  The spec lists its values; the drivers' tests \<^verbatim>\<open><= SIM::DIVERGED\<close> (abort)
  and \<^verbatim>\<open>>= SIM::OK\<close> (success) fix the order used by \<open>status_le\<close>.
\<close>

datatype ConvStatus = FAILURE | DIVERGED | OK | CONVERGED

fun status_rank :: "ConvStatus \<Rightarrow> nat" where
  "status_rank FAILURE = 0"
| "status_rank DIVERGED = 1"
| "status_rank OK = 2"
| "status_rank CONVERGED = 3"

definition status_le :: "ConvStatus \<Rightarrow> ConvStatus \<Rightarrow> bool" where
  "status_le a b = (status_rank a \<le> status_rank b)"

datatype SolutionMode = RHS_ONLY | INT_FORCES

text \<open>The fields of \<^verbatim>\<open>TimeStep\<close> that the drivers read or write.\<close>

record TimeStep =
  step :: int
  iter :: int
  time_t :: real
  time_first :: bool

text \<open>
  Modelled from the spec: \<^verbatim>\<open>utl::vector::norm2\<close> (IFEM library) is the Euclidean norm,
  and \<^verbatim>\<open>utl::vector::operator()\<close> indexes from one, as the guard
  \<^verbatim>\<open>irfStop > 0 && irfStop <= RF.size()\<close> of \<^verbatim>\<open>saveStep\<close> presupposes.
\<close>

definition norm2 :: "Vector \<Rightarrow> real" where
  "norm2 v = sqrt (sum_list (map (\<lambda>x. x * x) v))"

definition at1 :: "Vector \<Rightarrow> nat \<Rightarrow> real" where
  "at1 v i = v ! (i - 1)"

subsection \<open>The call log\<close>

datatype call =
    C_S1_solveStep int
  | C_S1_solveIteration int int
  | C_S1_updateStrainEnergyDensity int
  | C_S1_postSolve
  | C_S1_setMode SolutionMode
  | C_S1_assembleSystem
  | C_S1_extractLoadVec
  | C_S2_solveStep int
  | C_S2_postSolve
  | C_S2_setMode SolutionMode
  | C_S2_assembleSystem
  | C_S2_extractLoadVec
  | C_S1_refine IntVec Vectors
  | C_S2_refine IntVec
  | C_S1_clearProperties
  | C_S2_clearProperties
  | C_S1_read string
  | C_S2_read string
  | C_preprocess
  | C_init
  | C_S1_initSystem
  | C_S2_initSystem
  | C_S1_setSolutions Vectors
  | C_S2_setSolution Vector
  | C_S2_transferHistory2D Vector
  | C_writeEnergyRow
  | C_S1_saveStep
  | C_S2_saveStep
  | C_S2_saveResidual Vector
  | C_Coupled_advanceStep

type_synonym 'w sim = "'w \<times> call list"

text \<open>\<open>run c f s\<close> performs the solver call \<open>f\<close> on the solvers of \<open>s\<close> and logs it as \<open>c\<close>.\<close>

definition run :: "call \<Rightarrow> ('w \<Rightarrow> 'r \<times> 'w) \<Rightarrow> 'w sim \<Rightarrow> 'r \<times> 'w sim" where
  "run c f s = (case f (fst s) of (r, w') \<Rightarrow> (r, (w', snd s @ [c])))"

subsection \<open>The solver members used by the staggering schemes\<close>

text \<open>
  Modelled from the spec: the solvers take the time-step context by reference, and
  their sources are not part of this repository.  \<^verbatim>\<open>S1.solveStep\<close> returns the context
  it leaves behind (the quasi-static driver copies the context "to avoid changing the
  cycle counter"); the members called inside the staggering cycles leave the context to
  the staggering scheme, which is the only writer of the cycle index there
  (spec: "mutated only by the Coupling Driver and Staggering Scheme").
\<close>

record 'w solver_ops =
  S1_haveCrackPressure :: "'w \<Rightarrow> bool"
  S2_hasIC :: "string \<Rightarrow> 'w \<Rightarrow> bool"
  S1_getSolutions :: "'w \<Rightarrow> Vectors"
  S2_getSolution :: "'w \<Rightarrow> Vector"
  S2_getHistoryField :: "'w \<Rightarrow> Vector"
  S1_extractScalar :: "'w \<Rightarrow> real"
  S2_extractScalar :: "'w \<Rightarrow> real"
  S1_solveStep :: "TimeStep \<Rightarrow> 'w \<Rightarrow> (bool \<times> TimeStep) \<times> 'w"
  S1_solveIteration :: "TimeStep \<Rightarrow> int \<Rightarrow> 'w \<Rightarrow> ConvStatus \<times> 'w"
  S1_updateStrainEnergyDensity :: "TimeStep \<Rightarrow> 'w \<Rightarrow> bool \<times> 'w"
  S1_postSolve :: "TimeStep \<Rightarrow> 'w \<Rightarrow> bool \<times> 'w"
  S2_solveStep :: "TimeStep \<Rightarrow> bool \<Rightarrow> 'w \<Rightarrow> bool \<times> 'w"
  S2_postSolve :: "TimeStep \<Rightarrow> 'w \<Rightarrow> bool \<times> 'w"
  S1_setMode :: "SolutionMode \<Rightarrow> 'w \<Rightarrow> bool \<times> 'w"
  S2_setMode :: "SolutionMode \<Rightarrow> 'w \<Rightarrow> bool \<times> 'w"
  S1_assembleSystem :: "TimeStep \<Rightarrow> Vectors \<Rightarrow> bool \<Rightarrow> 'w \<Rightarrow> bool \<times> 'w"
  S2_assembleSystem :: "TimeStep \<Rightarrow> Vectors \<Rightarrow> bool \<Rightarrow> 'w \<Rightarrow> bool \<times> 'w"
  S1_extractLoadVec :: "Vector \<Rightarrow> 'w \<Rightarrow> (bool \<times> Vector) \<times> 'w"
  S2_extractLoadVec :: "Vector \<Rightarrow> 'w \<Rightarrow> (bool \<times> Vector) \<times> 'w"

section \<open>Residual and energy evaluation\<close>

text \<open>
  The same statements evaluate the two residuals in
  \<^verbatim>\<open>SIMFractureQstatic::checkConvergence\<close> (lines 90 to 113) and in
  \<^verbatim>\<open>SIMFractureMiehe::solveStep\<close> (lines 245 to 268); only the value returned on a
  failure differs.  \<open>residualNorms\<close> is that block: \<open>None\<close> is the early return, and
  \<open>Some (rNorm1, eNorm1, rNorm2, eNorm2)\<close> the four scalars.  The second component is
  the member \<^verbatim>\<open>residual\<close>, overwritten by each \<^verbatim>\<open>extractLoadVec\<close>.  The result of
  \<^verbatim>\<open>S1.setMode\<close> is discarded by the source, that of \<^verbatim>\<open>S2.setMode\<close> is tested.
\<close>

definition residualNorms ::
  "'w solver_ops \<Rightarrow> TimeStep \<Rightarrow> Vector \<Rightarrow> 'w sim
    \<Rightarrow> (real \<times> real \<times> real \<times> real) option \<times> Vector \<times> 'w sim" where
  "residualNorms ops tp residual s =
    (case run (C_S1_setMode RHS_ONLY) (S1_setMode ops RHS_ONLY) s of (_, s1) \<Rightarrow>
     case run C_S1_assembleSystem
            (S1_assembleSystem ops tp (S1_getSolutions ops (fst s1)) False) s1 of (ok2, s2) \<Rightarrow>
     if \<not> ok2 then (None, residual, s2) else
     case run C_S1_extractLoadVec (S1_extractLoadVec ops residual) s2 of ((ok3, res3), s3) \<Rightarrow>
     if \<not> ok3 then (None, res3, s3) else
     let rNorm1 = norm2 res3; eNorm1 = S1_extractScalar ops (fst s3) in
     case run (C_S2_setMode INT_FORCES) (S2_setMode ops INT_FORCES) s3 of (ok4, s4) \<Rightarrow>
     if \<not> ok4 then (None, res3, s4) else
     case run C_S2_assembleSystem
            (S2_assembleSystem ops tp [S2_getSolution ops (fst s4)] False) s4 of (ok5, s5) \<Rightarrow>
     if \<not> ok5 then (None, res3, s5) else
     case run C_S2_extractLoadVec (S2_extractLoadVec ops res3) s5 of ((ok6, res6), s6) \<Rightarrow>
     if \<not> ok6 then (None, res6, s6) else
     let rNorm2 = norm2 res6; eNorm2 = S2_extractScalar ops (fst s6) in
     (Some (rNorm1, eNorm1, rNorm2, eNorm2), res6, s6))"

section \<open>The successive-iteration scheme: \<^verbatim>\<open>SIMFractureQstatic\<close>\<close>

text \<open>The data members of \<^verbatim>\<open>SIMFractureQstatic\<close>.\<close>

record Qstatic =
  maxCycle :: int
  cycleTol :: real
  E0 :: real
  Ec :: real
  Ep :: real
  residual :: Vector

text \<open>The constructor: \<^verbatim>\<open>maxCycle = 50; cycleTol = 1.0e-4; E0 = Ec = Ep = 0.0\<close>.\<close>

definition Qstatic_init :: Qstatic where
  "Qstatic_init =
    \<lparr>maxCycle = 50, cycleTol = 1 / 10 ^ 4, E0 = 0, Ec = 0, Ep = 0, residual = []\<rparr>"

text \<open>
  Lines 120 to 127: the energy trace.  The printed angle \<^verbatim>\<open>beta\<close> is a function of the
  trace and of the cycle index; it goes to the output stream only.
\<close>

definition updateEnergy :: "Qstatic \<Rightarrow> int \<Rightarrow> real \<Rightarrow> Qstatic" where
  "updateEnergy q it eConv =
    (if it = 0 then q\<lparr>E0 := eConv\<rparr>
     else q\<lparr>Ep := (if it > 1 then Ec q else E0 q), Ec := eConv\<rparr>)"

text \<open>Lines 130 to 139: the tolerance and cycle rule.\<close>

definition cycleRule :: "Qstatic \<Rightarrow> int \<Rightarrow> real \<Rightarrow> ConvStatus" where
  "cycleRule q it rConv =
    (if rConv < \<bar>cycleTol q\<bar> then CONVERGED
     else if it < maxCycle q then OK
     else if cycleTol q < 0 then CONVERGED
     else DIVERGED)"

definition checkConvergence ::
  "'w solver_ops \<Rightarrow> Qstatic \<Rightarrow> TimeStep \<Rightarrow> ConvStatus \<Rightarrow> ConvStatus \<Rightarrow> 'w sim
    \<Rightarrow> ConvStatus \<times> Qstatic \<times> 'w sim" where
  "checkConvergence ops q tp status1 status2 s =
    (if status1 = FAILURE \<or> status2 = FAILURE then (FAILURE, q, s)
     else if status1 = DIVERGED \<or> status2 = DIVERGED then (DIVERGED, q, s)
     else
       case residualNorms ops tp (residual q) s of
         (None, res, s') \<Rightarrow> (FAILURE, q\<lparr>residual := res\<rparr>, s')
       | (Some (rNorm1, eNorm1, rNorm2, eNorm2), res, s') \<Rightarrow>
           let rConv = rNorm1 + rNorm2;
               eConv = eNorm1 + eNorm2;
               q' = updateEnergy (q\<lparr>residual := res\<rparr>) (iter tp) eConv
           in (cycleRule q' (iter tp) rConv, q', s'))"


text \<open>
  \<^verbatim>\<open>SIMFractureQstatic::solveStep\<close>.  The last statement calls the member \<^verbatim>\<open>solveStep\<close>
  of the IFEM class \<^verbatim>\<open>SIMCoupledSI\<close>, which is the parameter \<open>base\<close>: it gets the
  context, the solve-order flag, and the whole state, since it calls back into
  \<^verbatim>\<open>checkConvergence\<close>.  In the first branch \<^verbatim>\<open>S1.solveStep\<close> works on the copy
  \<^verbatim>\<open>myTp\<close>, so the context it returns is dropped.
\<close>

definition Qstatic_solveStep ::
  "'w solver_ops
    \<Rightarrow> (TimeStep \<Rightarrow> bool \<Rightarrow> Qstatic \<Rightarrow> 'w sim \<Rightarrow> bool \<times> TimeStep \<times> Qstatic \<times> 'w sim)
    \<Rightarrow> Qstatic \<Rightarrow> TimeStep \<Rightarrow> bool \<Rightarrow> 'w sim \<Rightarrow> bool \<times> TimeStep \<times> Qstatic \<times> 'w sim" where
  "Qstatic_solveStep ops base q tp firstS1 s =
    (if step tp = 1 then
       if S2_hasIC ops ''phasefield'' (fst s) then
         case run C_S2_postSolve (S2_postSolve ops tp) s of (ok1, s1) \<Rightarrow>
         if \<not> ok1 then (False, tp, q, s1) else
         case run (C_S1_solveStep (iter tp)) (S1_solveStep ops tp) s1 of ((ok2, myTp), s2) \<Rightarrow>
         if \<not> ok2 then (False, tp, q, s2) else
         case checkConvergence ops q tp OK CONVERGED s2 of (st, q', s3) \<Rightarrow>
           (status_le OK st, tp, q', s3)
       else if S1_haveCrackPressure ops (fst s) then
         case run (C_S2_solveStep (iter tp)) (S2_solveStep ops tp False) s of (ok1, s1) \<Rightarrow>
         if \<not> ok1 then (False, tp, q, s1) else base tp firstS1 q s1
       else base tp firstS1 q s
     else base tp (\<not> S2_hasIC ops ''phasefield'' (fst s)) q s)"

section \<open>The fixed-cycle scheme: \<^verbatim>\<open>SIMFractureMiehe\<close>\<close>








section \<open>The coupling driver: \<^verbatim>\<open>SIMFracture\<close>\<close>

text \<open>
  The data members of \<^verbatim>\<open>SIMFracture\<close> that its modelled members use
  (\<^verbatim>\<open>E0\<close>, \<^verbatim>\<open>Ec\<close>, \<^verbatim>\<open>Ep\<close> serve \<^verbatim>\<open>calcResidual\<close> only).  The private member
  \<^verbatim>\<open>residual\<close> of this class is \<open>base_residual\<close>, apart from the members of the same
  name in the two derived classes.
\<close>

record Fracture =
  energFile :: string
  infile :: string
  aMin :: real
  sols :: Vectors
  hsol :: Vector
  irfStop :: nat
  stopVal :: real
  doStop :: bool
  base_residual :: Vector

text \<open>The constructor: \<^verbatim>\<open>aMin(0.0)\<close>, \<^verbatim>\<open>doStop = false\<close>, \<^verbatim>\<open>irfStop = 0\<close>, \<^verbatim>\<open>stopVal = 0.0\<close>.\<close>

definition Fracture_init :: "string \<Rightarrow> Fracture" where
  "Fracture_init inputfile =
    \<lparr>energFile = [], infile = inputfile, aMin = 0, sols = [], hsol = [],
     irfStop = 0, stopVal = 0, doStop = False, base_residual = []\<rparr>"

text \<open>
  The members \<^verbatim>\<open>saveStep\<close> and \<^verbatim>\<open>advanceStep\<close> use.  The block that writes the energy
  file (lines 86 to 116) is one call, \<open>writeEnergyRow\<close>; \<open>Coupled_advanceStep\<close> is
  \<^verbatim>\<open>advanceStep\<close> of the coupling base class.
\<close>

record 'w save_ops =
  S1_getBoundaryReactions :: "'w \<Rightarrow> Vector"
  S1_getProcId :: "'w \<Rightarrow> int"
  writeEnergyRow :: "TimeStep \<Rightarrow> Vector \<Rightarrow> 'w \<Rightarrow> unit \<times> 'w"
  S2_saveStep :: "TimeStep \<Rightarrow> int \<Rightarrow> 'w \<Rightarrow> (bool \<times> int) \<times> 'w"
  S1_saveStep :: "TimeStep \<Rightarrow> int \<Rightarrow> 'w \<Rightarrow> (bool \<times> int) \<times> 'w"
  S2_saveResidual :: "TimeStep \<Rightarrow> Vector \<Rightarrow> int \<Rightarrow> 'w \<Rightarrow> (bool \<times> int) \<times> 'w"
  Coupled_advanceStep :: "TimeStep \<Rightarrow> 'w \<Rightarrow> (bool \<times> TimeStep) \<times> 'w"

text \<open>\<^verbatim>\<open>SIMFracture::advanceStep\<close>: \<^verbatim>\<open>CoupledSIM::advanceStep(tp) && !doStop\<close>.\<close>

definition advanceStep ::
  "'w save_ops \<Rightarrow> Fracture \<Rightarrow> TimeStep \<Rightarrow> 'w sim \<Rightarrow> bool \<times> TimeStep \<times> 'w sim" where
  "advanceStep sops d tp s =
    (case run C_Coupled_advanceStep (Coupled_advanceStep sops tp) s of ((ok, tp'), s') \<Rightarrow>
       (ok \<and> \<not> doStop d, tp', s'))"

text \<open>
  \<^verbatim>\<open>SIMFracture::saveStep\<close>.  The result is the value returned, the block counter
  \<^verbatim>\<open>nBlock\<close> (passed by reference), the driver and the solvers.  The three calls of the
  \<^verbatim>\<open>return\<close> statement are joined by \<^verbatim>\<open>&&\<close>: a later one runs only if the earlier
  ones returned true.
\<close>

definition saveStep ::
  "'w save_ops \<Rightarrow> Fracture \<Rightarrow> TimeStep \<Rightarrow> int \<Rightarrow> 'w sim \<Rightarrow> bool \<times> int \<times> Fracture \<times> 'w sim" where
  "saveStep sops d tp nBlock s =
    (let RF = S1_getBoundaryReactions sops (fst s);
         s0 = (if energFile d \<noteq> [] \<and> step tp > 0 \<and> S1_getProcId sops (fst s) = 0
               then snd (run C_writeEnergyRow (writeEnergyRow sops tp RF) s) else s);
         d' = (if step tp > 1 \<and> irfStop d > 0 \<and> irfStop d \<le> length RF
               then d\<lparr>doStop := \<bar>at1 RF (irfStop d)\<bar> < stopVal d\<rparr> else d)
     in
     case run C_S2_saveStep (S2_saveStep sops tp nBlock) s0 of ((ok1, nb1), s1) \<Rightarrow>
     if \<not> ok1 then (False, nb1, d', s1) else
     case run C_S1_saveStep (S1_saveStep sops tp nb1) s1 of ((ok2, nb2), s2) \<Rightarrow>
     if \<not> ok2 then (False, nb2, d', s2) else
     case run (C_S2_saveResidual (base_residual d'))
            (S2_saveResidual sops tp (base_residual d') nb2) s2 of ((ok3, nb3), s3) \<Rightarrow>
       (ok3, nb3, d', s3))"

section \<open>The adaptive refinement controller\<close>

text \<open>
  The members \<^verbatim>\<open>adaptMesh\<close> uses.  \<open>HAS_LRSPLINE\<close> is the preprocessor
  switch; \<open>S1_patchIsASMu2D\<close> tells whether the \<^verbatim>\<open>dynamic_cast\<close> of patch 1 gives a
  pointer; \<open>elementArea e\<close> is \<^verbatim>\<open>pch->getBasis()->getElement(e)->area()\<close>.
  \<^verbatim>\<open>S1.refine\<close> takes the buffered solution vectors by reference and returns them as
  it leaves them.  The basis copied before the refinement (\<^verbatim>\<open>oldBasis\<close>) is given to
  \<open>S2_transferHistory2D\<close> as the state of the solvers at that moment.

  Two fields stand for what the C++ library and language leave open.  \<open>std_sort\<close> is
  the index vector that \<^verbatim>\<open>std::sort\<close> leaves behind at lines 202 to 205, as a function
  of the norms: \<^verbatim>\<open>std::sort\<close> gives some permutation of the indices in ascending order
  of their norms, but which one among elements of equal norms is not fixed.
  \<open>size_t_undefined\<close> is the result of converting to \<^verbatim>\<open>size_t\<close> a \<^verbatim>\<open>double\<close> whose
  integral part \<^verbatim>\<open>size_t\<close> cannot hold, which the language leaves undefined.
\<close>

record 'w mesh_ops =
  HAS_LRSPLINE :: bool
  std_sort :: "Vector \<Rightarrow> IntVec"
  size_t_undefined :: "real \<Rightarrow> nat"
  S1_patchIsASMu2D :: "'w \<Rightarrow> bool"
  elementArea :: "nat \<Rightarrow> 'w \<Rightarrow> real"
  getFunctionsForElements :: "IntVec \<Rightarrow> 'w \<Rightarrow> IntVec"
  S2_getNorm :: "nat \<Rightarrow> 'w \<Rightarrow> real \<times> Vector"
  S1_refine :: "IntVec \<Rightarrow> Vectors \<Rightarrow> 'w \<Rightarrow> (bool \<times> Vectors) \<times> 'w"
  S2_refine :: "IntVec \<Rightarrow> 'w \<Rightarrow> bool \<times> 'w"
  S1_clearProperties :: "'w \<Rightarrow> unit \<times> 'w"
  S2_clearProperties :: "'w \<Rightarrow> unit \<times> 'w"
  S1_read :: "string \<Rightarrow> 'w \<Rightarrow> bool \<times> 'w"
  S2_read :: "string \<Rightarrow> 'w \<Rightarrow> bool \<times> 'w"
  SIM_preprocess :: "'w \<Rightarrow> bool \<times> 'w"
  SIM_init :: "'w \<Rightarrow> bool \<times> 'w"
  S1_initSystem :: "'w \<Rightarrow> bool \<times> 'w"
  S2_initSystem :: "'w \<Rightarrow> bool \<times> 'w"
  S1_setSolutions :: "Vectors \<Rightarrow> 'w \<Rightarrow> unit \<times> 'w"
  S2_setSolution :: "Vector \<Rightarrow> 'w \<Rightarrow> unit \<times> 'w"
  S2_transferHistory2D :: "Vector \<Rightarrow> 'w \<Rightarrow> 'w \<Rightarrow> unit \<times> 'w"

text \<open>
  \<^verbatim>\<open>SIMFracture::saveState\<close>: the buffer gets all solution vectors of \<^verbatim>\<open>S1\<close>, then the
  solution of \<^verbatim>\<open>S2\<close>, and the history field of \<^verbatim>\<open>S2\<close>.
\<close>

definition saveState :: "'w solver_ops \<Rightarrow> Fracture \<Rightarrow> 'w \<Rightarrow> Fracture" where
  "saveState ops d w =
    d\<lparr>sols := S1_getSolutions ops w @ [S2_getSolution ops w],
      hsol := S2_getHistoryField ops w\<rparr>"

text \<open>
  Lines 185 to 189 of \<^verbatim>\<open>adaptMesh\<close>: the minimum element area, from element 0 of the
  basis and \<^verbatim>\<open>pow(2.0,nrefinements)\<close>.
\<close>

definition areaFloor :: "'w mesh_ops \<Rightarrow> Fracture \<Rightarrow> int \<Rightarrow> 'w \<Rightarrow> Fracture" where
  "areaFloor mops d nrefinements w =
    (if aMin d \<le> 0 then
       let redMax = power_int (2::real) nrefinements
       in d\<lparr>aMin := elementArea mops 0 w / (redMax * redMax)\<rparr>
     else d)"


text \<open>
  The conversion of a \<^verbatim>\<open>double\<close> to a 64-bit \<^verbatim>\<open>size_t\<close>: the fraction is cut off when
  the integral part fits; otherwise the result is the parameter \<open>undef\<close>.
\<close>

definition to_size_t :: "(real \<Rightarrow> nat) \<Rightarrow> real \<Rightarrow> nat" where
  "to_size_t undef x = (if - 1 < x \<and> x < 2 ^ 64 then nat \<lfloor>x\<rfloor> else undef x)"

text \<open>
  Lines 207 and 208, with \<open>n\<close> for \<^verbatim>\<open>idx.size()\<close>.  The conditional expression for
  \<^verbatim>\<open>eMax\<close> has type \<^verbatim>\<open>double\<close> and initialises a \<^verbatim>\<open>size_t\<close>; the size of a vector
  comes back from that conversion as it was.
\<close>

definition eMin_of :: "real \<Rightarrow> real \<Rightarrow> nat \<Rightarrow> real" where
  "eMin_of min_frac gNorm n =
    (if min_frac < 0 then - min_frac * gNorm / sqrt (real n) else min_frac)"

definition eMax_of :: "(real \<Rightarrow> nat) \<Rightarrow> real \<Rightarrow> nat \<Rightarrow> nat" where
  "eMax_of undef beta n =
    (if beta < 0 then n else to_size_t undef (real n * beta / 100))"

text \<open>Lines 216 to 222: the loop over the sorted indices; \<open>elements\<close> is the vector built.\<close>

fun selectLoop ::
  "Vector \<Rightarrow> (nat \<Rightarrow> real) \<Rightarrow> real \<Rightarrow> real \<Rightarrow> nat \<Rightarrow> IntVec \<Rightarrow> IntVec \<Rightarrow> IntVec" where
  "selectLoop eNorm area aMn eMin eMax [] elements = elements"
| "selectLoop eNorm area aMn eMin eMax (eid # idx) elements =
    (if eNorm ! eid > eMin \<or> length elements \<ge> eMax then elements
     else if area eid > aMn + 1 / 10 ^ 12
       then selectLoop eNorm area aMn eMin eMax idx (elements @ [eid])
       else selectLoop eNorm area aMn eMin eMax idx elements)"

text \<open>
  Lines 192 to 222 for a non-empty \<^verbatim>\<open>eNorm\<close>: the elements to refine.  The index
  vector is created with \<^verbatim>\<open>eNorm.size()\<close> entries, so \<^verbatim>\<open>idx.size()\<close> is
  \<open>length eNorm\<close>.  \<^verbatim>\<open>elements.reserve(eMax)\<close> only allocates.
\<close>

definition selectElements :: "'w mesh_ops \<Rightarrow> Fracture \<Rightarrow> real \<Rightarrow> real \<Rightarrow> 'w \<Rightarrow> IntVec" where
  "selectElements mops d beta min_frac w =
    (case S2_getNorm mops 3 w of (gNorm, eNorm) \<Rightarrow>
       let idx = std_sort mops eNorm;
           eMin = eMin_of min_frac gNorm (length eNorm);
           eMax = eMax_of (size_t_undefined mops) beta (length eNorm)
       in selectLoop eNorm (\<lambda>e. elementArea mops e w) (aMin d) eMin eMax idx [])"

text \<open>
  Lines 231 to 276: refinement, re-initialisation and transfer, for the elements
  selected.  The result is the value returned, the buffer \<^verbatim>\<open>sols\<close> and the solvers.
\<close>

definition refineAndTransfer ::
  "'w mesh_ops \<Rightarrow> Fracture \<Rightarrow> IntVec \<Rightarrow> 'w sim \<Rightarrow> int \<times> Fracture \<times> 'w sim" where
  "refineAndTransfer mops d elements s =
    (let oldBasis = fst s;
         prm = getFunctionsForElements mops elements (fst s) in
     case run (C_S1_refine prm (sols d)) (S1_refine mops prm (sols d)) s of ((ok1, sols1), s1) \<Rightarrow>
     let d1 = d\<lparr>sols := sols1\<rparr> in
     if \<not> ok1 then (- 2, d1, s1) else
     case run (C_S2_refine prm) (S2_refine mops prm) s1 of (ok2, s2) \<Rightarrow>
     if \<not> ok2 then (- 2, d1, s2) else
     case run C_S1_clearProperties (S1_clearProperties mops) s2 of (_, s3) \<Rightarrow>
     case run C_S2_clearProperties (S2_clearProperties mops) s3 of (_, s4) \<Rightarrow>
     case run (C_S1_read (infile d1)) (S1_read mops (infile d1)) s4 of (ok5, s5) \<Rightarrow>
     if \<not> ok5 then (- 3, d1, s5) else
     case run (C_S2_read (infile d1)) (S2_read mops (infile d1)) s5 of (ok6, s6) \<Rightarrow>
     if \<not> ok6 then (- 3, d1, s6) else
     case run C_preprocess (SIM_preprocess mops) s6 of (ok7, s7) \<Rightarrow>
     if \<not> ok7 then (- 4, d1, s7) else
     case run C_init (SIM_init mops) s7 of (ok8, s8) \<Rightarrow>
     if \<not> ok8 then (- 5, d1, s8) else
     case run C_S1_initSystem (S1_initSystem mops) s8 of (ok9, s9) \<Rightarrow>
     if \<not> ok9 then (- 6, d1, s9) else
     case run C_S2_initSystem (S2_initSystem mops) s9 of (ok10, s10) \<Rightarrow>
     if \<not> ok10 then (- 6, d1, s10) else
     let s12 = (if sols d1 \<noteq> [] then
                  snd (run (C_S2_setSolution (last (sols d1))) (S2_setSolution mops (last (sols d1)))
                    (snd (run (C_S1_setSolutions (sols d1)) (S1_setSolutions mops (sols d1)) s10)))
                else s10);
         s13 = (if hsol d1 \<noteq> [] then
                  snd (run (C_S2_transferHistory2D (hsol d1))
                         (S2_transferHistory2D mops (hsol d1) oldBasis) s12)
                else s12)
     in (int (length elements), d1, s13))"

text \<open>\<^verbatim>\<open>SIMFracture::adaptMesh\<close>.\<close>

definition adaptMesh ::
  "'w mesh_ops \<Rightarrow> Fracture \<Rightarrow> real \<Rightarrow> real \<Rightarrow> int \<Rightarrow> 'w sim \<Rightarrow> int \<times> Fracture \<times> 'w sim" where
  "adaptMesh mops d beta min_frac nrefinements s =
    (if \<not> HAS_LRSPLINE mops then (- 1, d, s)
     else if \<not> S1_patchIsASMu2D mops (fst s) then (- 999, d, s)
     else
       let d' = areaFloor mops d nrefinements (fst s) in
       if snd (S2_getNorm mops 3 (fst s)) = [] then (- 1, d', s)
       else
         let elements = selectElements mops d' beta min_frac (fst s) in
         if elements = [] then (0, d', s)
         else refineAndTransfer mops d' elements s)"

section \<open>Predicates on the call log\<close>



text \<open>The two calls of one pass of the loop of \<^verbatim>\<open>SIMFractureMiehe::solveStep\<close>.\<close>

definition cyclePair :: "int \<Rightarrow> call list" where
  "cyclePair i = [C_S2_solveStep i, C_S1_solveIteration i 3]"




section \<open>A sample environment\<close>

text \<open>
  Solvers without a state of their own, whose calls all succeed: the residual of
  Field A is \<open>[2]\<close> (norm 2), that of Field B \<open>[1]\<close> (norm 1).  Variants are record
  updates of these.
\<close>

definition demo_ops :: "unit solver_ops" where
  "demo_ops =
    \<lparr>S1_haveCrackPressure = (\<lambda>w. False),
     S2_hasIC = (\<lambda>name w. False),
     S1_getSolutions = (\<lambda>w. [[1, 2]]),
     S2_getSolution = (\<lambda>w. [3]),
     S2_getHistoryField = (\<lambda>w. []),
     S1_extractScalar = (\<lambda>w. 7),
     S2_extractScalar = (\<lambda>w. 1),
     S1_solveStep = (\<lambda>tp w. ((True, tp), w)),
     S1_solveIteration = (\<lambda>tp stage w. (CONVERGED, w)),
     S1_updateStrainEnergyDensity = (\<lambda>tp w. (True, w)),
     S1_postSolve = (\<lambda>tp w. (True, w)),
     S2_solveStep = (\<lambda>tp standalone w. (True, w)),
     S2_postSolve = (\<lambda>tp w. (True, w)),
     S1_setMode = (\<lambda>mode w. (True, w)),
     S2_setMode = (\<lambda>mode w. (True, w)),
     S1_assembleSystem = (\<lambda>tp sol flag w. (True, w)),
     S2_assembleSystem = (\<lambda>tp sol flag w. (True, w)),
     S1_extractLoadVec = (\<lambda>r w. ((True, [2]), w)),
     S2_extractLoadVec = (\<lambda>r w. ((True, [1]), w))\<rparr>"

definition demo_sops :: "unit save_ops" where
  "demo_sops =
    \<lparr>S1_getBoundaryReactions = (\<lambda>w. [100, 30]),
     S1_getProcId = (\<lambda>w. 0),
     writeEnergyRow = (\<lambda>tp RF w. ((), w)),
     S2_saveStep = (\<lambda>tp nBlock w. ((True, nBlock + 1), w)),
     S1_saveStep = (\<lambda>tp nBlock w. ((True, nBlock + 1), w)),
     S2_saveResidual = (\<lambda>tp r nBlock w. ((True, nBlock + 1), w)),
     Coupled_advanceStep = (\<lambda>tp w. ((True, tp\<lparr>step := step tp + 1\<rparr>), w))\<rparr>"

text \<open>
  A mesh of two elements with areas 4 and 1 and refinement indicators \<open>1/50\<close> and
  \<open>1/100\<close>; refinement and re-initialisation succeed and leave the vectors they are
  given as they are.  The sort keeps elements of equal indicators in index order.
\<close>

definition demo_mops :: "unit mesh_ops" where
  "demo_mops =
    \<lparr>HAS_LRSPLINE = True,
     std_sort = (\<lambda>eNorm. sort_key (\<lambda>i. eNorm ! i) [0..<length eNorm]),
     size_t_undefined = (\<lambda>x. 0),
     S1_patchIsASMu2D = (\<lambda>w. True),
     elementArea = (\<lambda>e w. [4, 1] ! e),
     getFunctionsForElements = (\<lambda>elements w. elements),
     S2_getNorm = (\<lambda>k w. (1, [1 / 50, 1 / 100])),
     S1_refine = (\<lambda>prm sol w. ((True, sol), w)),
     S2_refine = (\<lambda>prm w. (True, w)),
     S1_clearProperties = (\<lambda>w. ((), w)),
     S2_clearProperties = (\<lambda>w. ((), w)),
     S1_read = (\<lambda>file w. (True, w)),
     S2_read = (\<lambda>file w. (True, w)),
     SIM_preprocess = (\<lambda>w. (True, w)),
     SIM_init = (\<lambda>w. (True, w)),
     S1_initSystem = (\<lambda>w. (True, w)),
     S2_initSystem = (\<lambda>w. (True, w)),
     S1_setSolutions = (\<lambda>sol w. ((), w)),
     S2_setSolution = (\<lambda>sol w. ((), w)),
     S2_transferHistory2D = (\<lambda>h old w. ((), w))\<rparr>"

text \<open>The second time step, before its first staggering cycle.\<close>

definition tp0 :: TimeStep where
  "tp0 = \<lparr>step = 2, iter = 0, time_t = 0, time_first = False\<rparr>"

section \<open>Basic facts\<close>

lemma norm2_simps [simp]: "norm2 [] = 0" "norm2 [2] = 2" "norm2 [1] = 1"
  by (simp_all add: norm2_def)

lemma run_result: "fst (run c f s) = fst (f (fst s))"
  and run_solvers: "fst (snd (run c f s)) = snd (f (fst s))"
  and run_log: "snd (snd (run c f s)) = snd s @ [c]"
  by (simp_all add: run_def split: prod.splits)

lemma run_eq: "run c f s = (fst (f (fst s)), snd (f (fst s)), snd s @ [c])"
  by (simp add: run_def split: prod.splits)

lemma cycleTol_updateEnergy [simp]: "cycleTol (updateEnergy q i e) = cycleTol q"
  and maxCycle_updateEnergy [simp]: "maxCycle (updateEnergy q i e) = maxCycle q"
  by (simp_all add: updateEnergy_def)


section \<open>The convergence check of the successive-iteration scheme\<close>









text \<open>
  Claim C9.  Two runs of the check that agree on the incoming statuses, the cycle
  index, the tolerance, the cycle cap and the outcome of the residual evaluation up to
  the energy scalars (both fail, or both give the same two residual norms) return the
  same status, whatever the energy scalars and the stored energy trace of each.
\<close>

theorem checkConvergence_energy_independent:
  assumes "cycleTol q = cycleTol q'" "maxCycle q = maxCycle q'" "iter tp = iter tp'"
    and "map_option (\<lambda>(rNorm1, eNorm1, rNorm2, eNorm2). (rNorm1, rNorm2))
            (fst (residualNorms ops tp (residual q) s)) =
         map_option (\<lambda>(rNorm1, eNorm1, rNorm2, eNorm2). (rNorm1, rNorm2))
            (fst (residualNorms ops' tp' (residual q') s'))"
  shows "fst (checkConvergence ops q tp status1 status2 s) =
         fst (checkConvergence ops' q' tp' status1 status2 s')"
  using assms
  by (cases "residualNorms ops tp (residual q) s"; cases "residualNorms ops' tp' (residual q') s'")
     (auto simp: checkConvergence_def cycleRule_def Let_def split: option.splits)

text \<open>Energies 7 and 1 with an empty trace against energies 1000 and -5 with a trace.\<close>

theorem checkConvergence_energy_independent_witness:
  "fst (checkConvergence demo_ops Qstatic_init tp0 OK OK ((), [])) =
   fst (checkConvergence (demo_ops\<lparr>S1_extractScalar := (\<lambda>w. 1000), S2_extractScalar := (\<lambda>w. - 5)\<rparr>)
          (Qstatic_init\<lparr>E0 := 9, Ec := 8, Ep := 7\<rparr>) tp0 OK OK ((), []))"
  using checkConvergence_energy_independent [of Qstatic_init "Qstatic_init\<lparr>E0 := 9, Ec := 8, Ep := 7\<rparr>"
          tp0 tp0 demo_ops "((), [])"
          "demo_ops\<lparr>S1_extractScalar := (\<lambda>w. 1000), S2_extractScalar := (\<lambda>w. - 5)\<rparr>" "((), [])" OK OK]
  by (simp add: residualNorms_def demo_ops_def run_def Qstatic_init_def)

section \<open>The solve order of the successive-iteration scheme\<close>

text \<open>
  Claim C10.  Beyond the first time step \<^verbatim>\<open>solveStep\<close> hands the coupling base class
  its own flag, true iff Field B has no initial condition named "phasefield"; the
  flag of the caller has no effect.
\<close>

theorem Qstatic_solveStep_ignores_firstS1:
  assumes "1 < step tp"
  shows "Qstatic_solveStep ops base q tp firstS1 s
           = base tp (\<not> S2_hasIC ops ''phasefield'' (fst s)) q s \<and>
         Qstatic_solveStep ops base q tp True s = Qstatic_solveStep ops base q tp False s"
  using assms by (simp add: Qstatic_solveStep_def)

text \<open>A base class that returns the flag it was given: the caller says false, it gets true.\<close>

theorem Qstatic_solveStep_ignores_firstS1_witness:
  "1 < step tp0 \<and>
   Qstatic_solveStep demo_ops (\<lambda>tp f q s. (f, tp, q, s)) Qstatic_init tp0 False ((), [])
     = (True, tp0, Qstatic_init, ((), []))"
  using Qstatic_solveStep_ignores_firstS1 [of tp0 demo_ops "(\<lambda>tp f q s. (f, tp, q, s))" Qstatic_init False "((), [])"]
  by (simp add: tp0_def demo_ops_def)

section \<open>The stop criterion\<close>

text \<open>
  Claim C8.  With a reaction component \<open>irfStop > 0\<close> configured, a \<^verbatim>\<open>saveStep\<close> of a
  step beyond the first whose reaction vector has at least \<open>irfStop\<close> components, the
  component \<open>irfStop\<close> being smaller in magnitude than \<open>stopVal\<close>, sets \<^verbatim>\<open>doStop\<close>; with
  that driver \<^verbatim>\<open>advanceStep\<close> returns false, for any context and any state of the
  solvers.
\<close>

theorem stop_criterion_ends_run:
  assumes "1 < step tp" "0 < irfStop d"
    and "irfStop d \<le> length (S1_getBoundaryReactions sops (fst s))"
    and "\<bar>at1 (S1_getBoundaryReactions sops (fst s)) (irfStop d)\<bar> < stopVal d"
  shows "doStop (fst (snd (snd (saveStep sops d tp nBlock s)))) \<and>
         \<not> fst (advanceStep sops (fst (snd (snd (saveStep sops d tp nBlock s)))) tp' s')"
proof -
  have "fst (snd (snd (saveStep sops d tp nBlock s))) = d\<lparr>doStop := True\<rparr>"
    using assms by (simp add: saveStep_def Let_def split: prod.splits)
  then show ?thesis
    by (simp add: advanceStep_def split: prod.splits)
qed

text \<open>Reactions \<open>[100, 30]\<close>, component 2, threshold 50, step 2.\<close>

theorem stop_criterion_ends_run_witness:
  "1 < step tp0 \<and> (0::nat) < 2 \<and> 2 \<le> length (S1_getBoundaryReactions demo_sops ()) \<and>
   \<bar>at1 (S1_getBoundaryReactions demo_sops ()) 2\<bar> < 50 \<and>
   \<not> fst (advanceStep demo_sops
      (fst (snd (snd (saveStep demo_sops (Fracture_init ''in.xinp''\<lparr>irfStop := 2, stopVal := 50\<rparr>) tp0 0 ((), [])))))
      (tp0\<lparr>step := 3\<rparr>) ((), []))"
  using stop_criterion_ends_run [of tp0 "Fracture_init ''in.xinp''\<lparr>irfStop := 2, stopVal := 50\<rparr>"
          demo_sops "((), [])" 0 "tp0\<lparr>step := 3\<rparr>" "((), [])"]
  by (simp add: tp0_def demo_sops_def Fracture_init_def at1_def)

section \<open>The call sequence of the fixed-cycle scheme\<close>


lemma cyclePair_Cons:
  "concat (map cyclePair (i # xs)) =
     C_S2_solveStep i # C_S1_solveIteration i 3 # concat (map cyclePair xs)"
  by (simp add: cyclePair_def)


















section \<open>The selection of the elements to refine\<close>

text \<open>
  The loop that builds \<^verbatim>\<open>elements\<close>: it walks the indices while their norm does not
  exceed \<open>eMin\<close>, keeps those whose area exceeds \<open>aMn + 1e-12\<close>, and stops at \<open>eMax\<close>
  elements kept.
\<close>

lemma selectLoop_eq:
  "selectLoop eNorm area aMn eMin eMax idx elements =
     elements @ take (eMax - length elements)
       (filter (\<lambda>e. area e > aMn + 1 / 10 ^ 12) (takeWhile (\<lambda>e. \<not> eNorm ! e > eMin) idx))"
proof (induction idx arbitrary: elements)
  case Nil
  then show ?case by simp
next
  case (Cons eid idx)
  show ?case
  proof (cases "eNorm ! eid > eMin \<or> length elements \<ge> eMax")
    case True
    then show ?thesis by auto
  next
    case False
    then have "eMax - length elements = Suc (eMax - Suc (length elements))"
      by arith
    with False show ?thesis
      by (simp add: Cons.IH)
  qed
qed



lemma redMax_sq: "power_int (2::real) n * power_int 2 n = power_int 4 n"
  using power_int_mult_distrib [of "2::real" 2 n] by simp

lemma areaFloor_sols [simp]: "sols (areaFloor mops d n w) = sols d"
  and areaFloor_hsol [simp]: "hsol (areaFloor mops d n w) = hsol d"
  and areaFloor_infile [simp]: "infile (areaFloor mops d n w) = infile d"
  by (simp_all add: areaFloor_def Let_def)

lemma areaFloor_aMin:
  "aMin (areaFloor mops d n w) = (if aMin d \<le> 0 then elementArea mops 0 w / power_int 4 n else aMin d)"
  by (simp add: areaFloor_def Let_def redMax_sq)

lemma refineAndTransfer_codes:
  "fst (refineAndTransfer mops d elements s) \<in> {- 2, - 3, - 4, - 5, - 6, int (length elements)}"
  by (simp add: refineAndTransfer_def split_beta Let_def)

lemma refineAndTransfer_driver:
  "fst (snd (refineAndTransfer mops d elements s)) =
     d\<lparr>sols := snd (fst (S1_refine mops (getFunctionsForElements mops elements (fst s)) (sols d) (fst s)))\<rparr>"
  by (simp add: refineAndTransfer_def split_beta Let_def run_eq)

lemma refineAndTransfer_success:
  assumes "0 < fst (refineAndTransfer mops d elements s)"
  shows "snd (snd (snd (refineAndTransfer mops d elements s))) =
     (let prm = getFunctionsForElements mops elements (fst s);
          sols1 = snd (fst (S1_refine mops prm (sols d) (fst s)))
      in snd s @ [C_S1_refine prm (sols d), C_S2_refine prm, C_S1_clearProperties,
                  C_S2_clearProperties, C_S1_read (infile d), C_S2_read (infile d),
                  C_preprocess, C_init, C_S1_initSystem, C_S2_initSystem]
         @ (if sols1 \<noteq> [] then [C_S1_setSolutions sols1, C_S2_setSolution (last sols1)] else [])
         @ (if hsol d \<noteq> [] then [C_S2_transferHistory2D (hsol d)] else []))"
  using assms
  by (simp add: refineAndTransfer_def split_beta Let_def run_eq split: if_splits)

lemma adaptMesh_unfold:
  assumes "HAS_LRSPLINE mops" "S1_patchIsASMu2D mops (fst s)" "snd (S2_getNorm mops 3 (fst s)) \<noteq> []"
  shows "adaptMesh mops d beta min_frac nrefinements s =
     (let d' = areaFloor mops d nrefinements (fst s);
          elements = selectElements mops d' beta min_frac (fst s)
      in if elements = [] then (0, d', s) else refineAndTransfer mops d' elements s)"
  using assms by (simp add: adaptMesh_def Let_def)

lemma selectElements_eq:
  assumes "S2_getNorm mops 3 w = (gNorm, eNorm)"
  shows "selectElements mops d beta min_frac w =
     take (eMax_of (size_t_undefined mops) beta (length eNorm))
       (filter (\<lambda>e. elementArea mops e w > aMin d + 1 / 10 ^ 12)
         (takeWhile (\<lambda>e. \<not> eNorm ! e > eMin_of min_frac gNorm (length eNorm)) (std_sort mops eNorm)))"
  using assms by (simp add: selectElements_def selectLoop_eq Let_def)

lemma selectElements_area:
  "e \<in> set (selectElements mops d beta min_frac w) \<Longrightarrow> aMin d + 1 / 10 ^ 12 < elementArea mops e w"
  by (cases "S2_getNorm mops 3 w") (auto simp: selectElements_eq dest: in_set_takeD)


lemma demo_mops_calls:
  "HAS_LRSPLINE demo_mops"
  "S1_patchIsASMu2D demo_mops w"
  "elementArea demo_mops 0 w = 4"
  "elementArea demo_mops (Suc 0) w = 1"
  "getFunctionsForElements demo_mops elements w = elements"
  "S2_getNorm demo_mops k w = (1, [1 / 50, 1 / 100])"
  "S1_refine demo_mops prm sol w = ((True, sol), w)"
  "S2_refine demo_mops prm w = (True, w)"
  "S1_clearProperties demo_mops w = ((), w)"
  "S2_clearProperties demo_mops w = ((), w)"
  "S1_read demo_mops file w = (True, w)"
  "S2_read demo_mops file w = (True, w)"
  "SIM_preprocess demo_mops w = (True, w)"
  "SIM_init demo_mops w = (True, w)"
  "S1_initSystem demo_mops w = (True, w)"
  "S2_initSystem demo_mops w = (True, w)"
  "S1_setSolutions demo_mops sol1 w = ((), w)"
  "S2_setSolution demo_mops sol2 w = ((), w)"
  "S2_transferHistory2D demo_mops h old w = ((), w)"
  by (simp_all add: demo_mops_def)

lemma demo_std_sort: "std_sort demo_mops [1 / 50, 1 / 100] = [1, 0]"
  by (simp add: demo_mops_def upt_rec)

lemma demo_selectElements:
  "aMin d = 1 \<Longrightarrow> selectElements demo_mops d (- 1) (1 / 20) w = [0]"
  by (simp add: selectElements_def demo_mops_calls demo_std_sort eMin_of_def eMax_of_def)

lemma demo_adaptMesh:
  "adaptMesh demo_mops (Fracture_init ''in.xinp'') (- 1) (1 / 20) 1 ((), []) =
    (1, Fracture_init ''in.xinp''\<lparr>aMin := 1\<rparr>,
     ((), [C_S1_refine [0] [], C_S2_refine [0], C_S1_clearProperties, C_S2_clearProperties,
           C_S1_read ''in.xinp'', C_S2_read ''in.xinp'', C_preprocess, C_init,
           C_S1_initSystem, C_S2_initSystem]))"
  by (simp add: adaptMesh_def areaFloor_def demo_selectElements demo_mops_calls
      Fracture_init_def refineAndTransfer_def run_def Let_def)

lemma demo_adaptMesh_saved:
  "adaptMesh demo_mops (saveState demo_ops (Fracture_init ''in.xinp'') ()) (- 1) (1 / 20) 1 ((), []) =
    (1, Fracture_init ''in.xinp''\<lparr>sols := [[1, 2], [3]], aMin := 1\<rparr>,
     ((), [C_S1_refine [0] [[1, 2], [3]], C_S2_refine [0], C_S1_clearProperties, C_S2_clearProperties,
           C_S1_read ''in.xinp'', C_S2_read ''in.xinp'', C_preprocess, C_init,
           C_S1_initSystem, C_S2_initSystem, C_S1_setSolutions [[1, 2], [3]], C_S2_setSolution [3]]))"
  by (simp add: adaptMesh_def areaFloor_def demo_selectElements demo_mops_calls
      saveState_def demo_ops_def Fracture_init_def refineAndTransfer_def run_def Let_def)

lemma adaptMesh_minus_one:
  assumes "HAS_LRSPLINE mops" "fst (adaptMesh mops d beta min_frac nrefinements s) = - 1"
  shows "S1_patchIsASMu2D mops (fst s) \<and> snd (S2_getNorm mops 3 (fst s)) = []"
  using assms refineAndTransfer_codes [of mops "areaFloor mops d nrefinements (fst s)"
      "selectElements mops (areaFloor mops d nrefinements (fst s)) beta min_frac (fst s)" s]
  by (auto simp: adaptMesh_def Let_def split: if_splits)




section \<open>The missing indicator\<close>

text \<open>
  Claim C6.  When patch 1 is an \<^verbatim>\<open>ASMu2D\<close>, so that the indicator is fetched, and the
  indicator vector is empty, \<^verbatim>\<open>adaptMesh\<close> returns \<open>-1\<close>, calls no member that could
  change the solvers, and leaves the buffers \<^verbatim>\<open>sols\<close> and \<^verbatim>\<open>hsol\<close> as they were.
  In the LR-spline build no other outcome of \<^verbatim>\<open>adaptMesh\<close> is \<open>-1\<close>.
\<close>

theorem adaptMesh_missing_indicator:
  assumes "S1_patchIsASMu2D mops (fst s)" "snd (S2_getNorm mops 3 (fst s)) = []"
  shows "fst (adaptMesh mops d beta min_frac nrefinements s) = - 1 \<and>
         snd (snd (adaptMesh mops d beta min_frac nrefinements s)) = s \<and>
         sols (fst (snd (adaptMesh mops d beta min_frac nrefinements s))) = sols d \<and>
         hsol (fst (snd (adaptMesh mops d beta min_frac nrefinements s))) = hsol d \<and>
         (HAS_LRSPLINE mops \<and> fst (adaptMesh mops d2 beta2 min_frac2 nrefinements2 s2) = - 1 \<longrightarrow>
            snd (S2_getNorm mops 3 (fst s2)) = [])"
proof -
  have r: "fst (adaptMesh mops d beta min_frac nrefinements s) = - 1 \<and>
         snd (snd (adaptMesh mops d beta min_frac nrefinements s)) = s \<and>
         sols (fst (snd (adaptMesh mops d beta min_frac nrefinements s))) = sols d \<and>
         hsol (fst (snd (adaptMesh mops d beta min_frac nrefinements s))) = hsol d"
    using assms by (simp add: adaptMesh_def Let_def)
  have m: "HAS_LRSPLINE mops \<and> fst (adaptMesh mops d2 beta2 min_frac2 nrefinements2 s2) = - 1 \<longrightarrow>
            snd (S2_getNorm mops 3 (fst s2)) = []"
    using adaptMesh_minus_one [of mops d2 beta2 min_frac2 nrefinements2 s2] by blast
  show ?thesis
    using r m by blast
qed

text \<open>An empty indicator with a filled buffer: only the area floor is set.\<close>

theorem adaptMesh_missing_indicator_witness:
  "S1_patchIsASMu2D (demo_mops\<lparr>S2_getNorm := (\<lambda>k w. (0, []))\<rparr>) () \<and>
   snd (S2_getNorm (demo_mops\<lparr>S2_getNorm := (\<lambda>k w. (0, []))\<rparr>) 3 ()) = [] \<and>
   fst (adaptMesh (demo_mops\<lparr>S2_getNorm := (\<lambda>k w. (0, []))\<rparr>)
     (Fracture_init ''in.xinp''\<lparr>sols := [[1, 2], [3]], hsol := [5]\<rparr>) (- 1) (1 / 20) 1 ((), [])) = - 1 \<and>
   snd (snd (adaptMesh (demo_mops\<lparr>S2_getNorm := (\<lambda>k w. (0, []))\<rparr>)
     (Fracture_init ''in.xinp''\<lparr>sols := [[1, 2], [3]], hsol := [5]\<rparr>) (- 1) (1 / 20) 1 ((), []))) = ((), []) \<and>
   sols (fst (snd (adaptMesh (demo_mops\<lparr>S2_getNorm := (\<lambda>k w. (0, []))\<rparr>)
     (Fracture_init ''in.xinp''\<lparr>sols := [[1, 2], [3]], hsol := [5]\<rparr>) (- 1) (1 / 20) 1 ((), []))))
     = [[1, 2], [3]]"
proof -
  have h: "S1_patchIsASMu2D (demo_mops\<lparr>S2_getNorm := (\<lambda>k w. (0, []))\<rparr>) (fst ((), []))"
    "snd (S2_getNorm (demo_mops\<lparr>S2_getNorm := (\<lambda>k w. (0, []))\<rparr>) 3 (fst ((), []))) = []"
    by (simp_all add: demo_mops_def)
  have b: "sols (Fracture_init ''in.xinp''\<lparr>sols := [[1, 2], [3]], hsol := [5]\<rparr>) = [[1, 2], [3]]"
    by simp
  show ?thesis
    using h adaptMesh_missing_indicator [OF h,
        of "Fracture_init ''in.xinp''\<lparr>sols := [[1, 2], [3]], hsol := [5]\<rparr>" "- 1" "1 / 20" 1]
    by (simp only: b fst_conv)
qed

section \<open>The area floor\<close>

text \<open>
  Claim C7, as the code has it.  In the LR-spline build with patch 1 an \<^verbatim>\<open>ASMu2D\<close>,
  a call that finds the stored floor \<^verbatim>\<open>aMin\<close> not positive sets it to the area of
  element 0 of the basis divided by \<open>4 ^ nrefinements\<close>, and a call that finds it
  positive leaves it; the floor is positive afterwards when it was before or when
  element 0 has a positive area, so that it is then computed once.  The elements
  refined are those selected with the floor of this call, and each of them has an area
  above the floor.
\<close>

theorem adaptMesh_area_floor:
  assumes "HAS_LRSPLINE mops" "S1_patchIsASMu2D mops (fst s)"
  shows "aMin (fst (snd (adaptMesh mops d beta min_frac nrefinements s))) =
           (if aMin d \<le> 0 then elementArea mops 0 (fst s) / power_int 4 nrefinements else aMin d)
       \<and> (0 < aMin d \<or> 0 < elementArea mops 0 (fst s) \<longrightarrow>
            0 < aMin (fst (snd (adaptMesh mops d beta min_frac nrefinements s))))
       \<and> (snd (S2_getNorm mops 3 (fst s)) \<noteq> [] \<longrightarrow>
            adaptMesh mops d beta min_frac nrefinements s =
              (let d' = areaFloor mops d nrefinements (fst s);
                   elements = selectElements mops d' beta min_frac (fst s)
               in if elements = [] then (0, d', s) else refineAndTransfer mops d' elements s))
       \<and> (\<forall>e \<in> set (selectElements mops (areaFloor mops d nrefinements (fst s)) beta min_frac (fst s)).
            aMin (fst (snd (adaptMesh mops d beta min_frac nrefinements s))) < elementArea mops e (fst s))"
proof -
  let ?d' = "areaFloor mops d nrefinements (fst s)"
  have a: "aMin (fst (snd (adaptMesh mops d beta min_frac nrefinements s))) = aMin ?d'"
    using assms by (simp add: adaptMesh_def Let_def refineAndTransfer_driver)
  have p: "0 < aMin d \<or> 0 < elementArea mops 0 (fst s) \<Longrightarrow> 0 < aMin ?d'"
    by (auto simp: areaFloor_aMin)
  have q: "\<forall>e \<in> set (selectElements mops ?d' beta min_frac (fst s)). aMin ?d' < elementArea mops e (fst s)"
    using selectElements_area [of _ mops ?d' beta min_frac "fst s"] by fastforce
  show ?thesis
    unfolding a using p q adaptMesh_unfold [OF assms, of d beta min_frac nrefinements]
    by (simp add: areaFloor_aMin)
qed

text \<open>The first call on the sample mesh sets the floor to \<open>4 / 4\<close>; a floor of \<open>1/3\<close> stays.\<close>

theorem adaptMesh_area_floor_witness:
  "HAS_LRSPLINE demo_mops \<and> S1_patchIsASMu2D demo_mops () \<and>
   aMin (fst (snd (adaptMesh demo_mops (Fracture_init ''in.xinp'') (- 1) (1 / 20) 1 ((), [])))) = 4 / 4 \<and>
   aMin (fst (snd (adaptMesh demo_mops (Fracture_init ''in.xinp''\<lparr>aMin := 1 / 3\<rparr>) (- 1) (1 / 20) 1 ((), []))))
     = 1 / 3"
proof -
  have h: "HAS_LRSPLINE demo_mops" "S1_patchIsASMu2D demo_mops (fst ((), []))"
    by (simp_all add: demo_mops_def)
  have e: "elementArea demo_mops 0 () = 4"
    by (simp add: demo_mops_def)
  have "aMin (fst (snd (adaptMesh demo_mops (Fracture_init ''in.xinp'') (- 1) (1 / 20) 1 ((), [])))) = 4 / 4"
    using adaptMesh_area_floor [OF h, of "Fracture_init ''in.xinp''" "- 1" "1 / 20" 1, THEN conjunct1]
    by (simp add: e Fracture_init_def)
  moreover
  have "aMin (fst (snd (adaptMesh demo_mops (Fracture_init ''in.xinp''\<lparr>aMin := 1 / 3\<rparr>) (- 1) (1 / 20) 1 ((), []))))
     = 1 / 3"
    using adaptMesh_area_floor [OF h, of "Fracture_init ''in.xinp''\<lparr>aMin := 1 / 3\<rparr>" "- 1" "1 / 20" 1,
            THEN conjunct1]
    by (simp add: Fracture_init_def)
  ultimately show ?thesis
    using h by simp
qed

text \<open>
  On the sample mesh element 1 is finer than element 0.  One refinement level from
  the finest element would give the floor \<open>1/4\<close>; the floor is 1, from element 0.
\<close>

theorem area_floor_from_element_0:
  "elementArea demo_mops 1 () < elementArea demo_mops 0 () \<and>
   elementArea demo_mops 1 () / 4 ^ 1 = 1 / 4 \<and>
   aMin (fst (snd (adaptMesh demo_mops (Fracture_init ''in.xinp'') (- 1) (1 / 20) 1 ((), [])))) = 1"
  by (simp only: demo_adaptMesh) (simp add: demo_mops_def)

section \<open>The snapshot buffer\<close>

text \<open>
  Claim C5, as the code has it.  \<^verbatim>\<open>adaptMesh\<close> does not store the solution state; it
  works on the buffers as \<^verbatim>\<open>saveState\<close>, a member of its own, left them:
  \<^verbatim>\<open>sols\<close> all solution vectors of Field A followed by the solution of Field B,
  \<^verbatim>\<open>hsol\<close> the history field of Field B.  A call that returns a positive count has
  selected a non-empty set of elements, has given the buffer \<^verbatim>\<open>sols\<close> to the
  refinement of Field A and has kept what it returned, and has made these calls in
  this order: the two refinements, the two \<^verbatim>\<open>clearProperties\<close>, the two \<^verbatim>\<open>read\<close>,
  \<^verbatim>\<open>preprocess\<close>, \<^verbatim>\<open>init\<close>, the two \<^verbatim>\<open>initSystem\<close>; then, if the buffer \<^verbatim>\<open>sols\<close>
  is not empty, \<^verbatim>\<open>S1.setSolutions\<close> with it and \<^verbatim>\<open>S2.setSolution\<close> with its last
  vector; then, if \<^verbatim>\<open>hsol\<close> is not empty, the transfer of the history field.
\<close>

theorem adaptMesh_buffer_use:
  assumes "0 < fst (adaptMesh mops d beta min_frac nrefinements s)"
  shows "let elements = selectElements mops (areaFloor mops d nrefinements (fst s)) beta min_frac (fst s);
             prm = getFunctionsForElements mops elements (fst s);
             sols1 = snd (fst (S1_refine mops prm (sols d) (fst s)));
             d' = fst (snd (adaptMesh mops d beta min_frac nrefinements s))
         in elements \<noteq> [] \<and> sols d' = sols1 \<and> hsol d' = hsol d \<and>
            snd (snd (snd (adaptMesh mops d beta min_frac nrefinements s))) =
              snd s @ [C_S1_refine prm (sols d), C_S2_refine prm, C_S1_clearProperties,
                       C_S2_clearProperties, C_S1_read (infile d), C_S2_read (infile d),
                       C_preprocess, C_init, C_S1_initSystem, C_S2_initSystem]
                    @ (if sols1 \<noteq> [] then [C_S1_setSolutions sols1, C_S2_setSolution (last sols1)] else [])
                    @ (if hsol d \<noteq> [] then [C_S2_transferHistory2D (hsol d)] else []) \<and>
            sols (saveState ops d w) = S1_getSolutions ops w @ [S2_getSolution ops w] \<and>
            hsol (saveState ops d w) = S2_getHistoryField ops w"
proof -
  let ?d0 = "areaFloor mops d nrefinements (fst s)"
  let ?el = "selectElements mops ?d0 beta min_frac (fst s)"
  have ne: "?el \<noteq> []" and eq: "adaptMesh mops d beta min_frac nrefinements s = refineAndTransfer mops ?d0 ?el s"
    using assms by (auto simp: adaptMesh_def Let_def split: if_splits)
  have pos: "0 < fst (refineAndTransfer mops ?d0 ?el s)"
    using assms eq by simp
  show ?thesis
    unfolding eq Let_def
    using ne refineAndTransfer_success [OF pos]
    by (simp add: refineAndTransfer_driver saveState_def Let_def)
qed

text \<open>
  \<^verbatim>\<open>saveState\<close> first, on the sample environment: the snapshot goes to the refinement
  and is restored after the re-initialisation.
\<close>

theorem adaptMesh_buffer_use_witness:
  "0 < fst (adaptMesh demo_mops (saveState demo_ops (Fracture_init ''in.xinp'') ()) (- 1) (1 / 20) 1 ((), [])) \<and>
   sols (fst (snd (adaptMesh demo_mops (saveState demo_ops (Fracture_init ''in.xinp'') ())
     (- 1) (1 / 20) 1 ((), [])))) =
     snd (fst (S1_refine demo_mops (getFunctionsForElements demo_mops
       (selectElements demo_mops (areaFloor demo_mops (saveState demo_ops (Fracture_init ''in.xinp'') ()) 1 ())
          (- 1) (1 / 20) ()) ())
       (S1_getSolutions demo_ops () @ [S2_getSolution demo_ops ()]) ())) \<and>
   snd (snd (snd (adaptMesh demo_mops (saveState demo_ops (Fracture_init ''in.xinp'') ()) (- 1) (1 / 20) 1 ((), []))))
    = [C_S1_refine [0] [[1, 2], [3]], C_S2_refine [0], C_S1_clearProperties, C_S2_clearProperties,
       C_S1_read ''in.xinp'', C_S2_read ''in.xinp'', C_preprocess, C_init,
       C_S1_initSystem, C_S2_initSystem, C_S1_setSolutions [[1, 2], [3]], C_S2_setSolution [3]]"
proof -
  have pos: "0 < fst (adaptMesh demo_mops (saveState demo_ops (Fracture_init ''in.xinp'') ())
      (- 1) (1 / 20) 1 ((), []))"
    by (simp only: demo_adaptMesh_saved) simp
  have b: "sols (saveState demo_ops (Fracture_init ''in.xinp'') ()) =
      S1_getSolutions demo_ops () @ [S2_getSolution demo_ops ()]"
    by (simp add: saveState_def)
  have "sols (fst (snd (adaptMesh demo_mops (saveState demo_ops (Fracture_init ''in.xinp'') ())
     (- 1) (1 / 20) 1 ((), [])))) =
     snd (fst (S1_refine demo_mops (getFunctionsForElements demo_mops
       (selectElements demo_mops (areaFloor demo_mops (saveState demo_ops (Fracture_init ''in.xinp'') ()) 1 ())
          (- 1) (1 / 20) ()) ())
       (sols (saveState demo_ops (Fracture_init ''in.xinp'') ())) ()))"
    using adaptMesh_buffer_use [OF pos, of demo_ops "()"]
    by (simp only: Let_def fst_conv)
  then show ?thesis
    using pos by (simp only: b) (simp only: demo_adaptMesh_saved, simp)
qed

text \<open>
  Without \<^verbatim>\<open>saveState\<close>: Field A and Field B have solutions, a non-empty set is
  refined, the buffer is empty before and after, and nothing is restored.
\<close>

theorem adaptMesh_takes_no_snapshot:
  "S1_getSolutions demo_ops () = [[1, 2]] \<and> S2_getSolution demo_ops () = [3] \<and>
   adaptMesh demo_mops (Fracture_init ''in.xinp'') (- 1) (1 / 20) 1 ((), []) =
    (1, Fracture_init ''in.xinp''\<lparr>aMin := 1\<rparr>,
     ((), [C_S1_refine [0] [], C_S2_refine [0], C_S1_clearProperties, C_S2_clearProperties,
           C_S1_read ''in.xinp'', C_S2_read ''in.xinp'', C_preprocess, C_init,
           C_S1_initSystem, C_S2_initSystem])) \<and>
   sols (Fracture_init ''in.xinp''\<lparr>aMin := 1\<rparr>) = []"
  by (simp only: demo_adaptMesh) (simp add: demo_ops_def Fracture_init_def)



end
